theory Spec2Isabelle
  imports Main "HOL-Library.Word"
begin

section \<open>Data model\<close>

text \<open>
  The dispatcher runs on a 32-bit secure core: \<open>uint32_t\<close>, \<open>int32_t\<close>, \<open>size_t\<close>,
  \<open>psa_handle_t\<close> and data pointers are 32-bit values. Arithmetic on them wraps, as
  the arithmetic of \<open>32 word\<close> does. The null pointer is the address 0.
\<close>

type_synonym uint32_t = "32 word"
type_synonym int32_t = "32 word"
type_synonym size_t = "32 word"
type_synonym addr = "32 word"
type_synonym psa_handle_t = "32 word"

text \<open>
  \<open>psa_invec\<close> and \<open>psa_outvec\<close> are both a pointer followed by a \<open>size_t\<close>; one record
  stands for both. \<open>sizeof_iovec\<close> is the size of that struct on the 32-bit target.
\<close>

record psa_invec =
  base :: addr
  len :: size_t

type_synonym psa_outvec = psa_invec

definition sizeof_iovec :: size_t where
  "sizeof_iovec = 8"

text \<open>The part of a service descriptor that the dispatcher reads.\<close>

record tfm_spm_service_db_t =
  non_secure_client :: bool
  minor_version :: uint32_t

record tfm_spm_service_t =
  service_db :: tfm_spm_service_db_t

datatype msg_type = PSA_IPC_CONNECT | PSA_IPC_CALL | PSA_IPC_DISCONNECT

datatype psa_status_t = PSA_SUCCESS | PSA_CONNECTION_BUSY

text \<open>A message object is known to the dispatcher only by its address.\<close>

type_synonym msg_ptr = addr

text \<open>
  The argument list of \<open>tfm_spm_create_msg\<close>. A pointer to one of the dispatcher's local
  arrays is recorded by the array's contents at the time of the call; \<open>None\<close> is \<open>NULL\<close>.
\<close>

record msg_args =
  arg_service :: tfm_spm_service_t
  arg_handle :: psa_handle_t
  arg_type :: msg_type
  arg_ns_caller :: int32_t
  arg_invec :: "psa_invec list option"
  arg_in_len :: size_t
  arg_outvec :: "psa_outvec list option"
  arg_out_len :: size_t
  arg_caller_outvec :: addr

text \<open>
  What the dispatcher does to its collaborators, in order: every boundary check with its
  verdict, every copy out of caller memory, every message built and every hand-off to the
  event path with the status it returned.
\<close>

datatype event =
    Memory_check addr size_t int32_t int32_t
  | Copy_from_caller addr size_t
  | Create_msg msg_args "msg_ptr option"
  | Send_event tfm_spm_service_t msg_ptr int32_t

text \<open>
  Ways in which an entry point does not return to its caller: \<open>tfm_panic\<close>, a failed
  \<open>TFM_CORE_ASSERT\<close>, and behaviour that C leaves undefined (an access beyond a local
  array, overflow of the \<open>int\<close> loop counter, a call whose arguments do not fit the
  callee's parameters).
\<close>

datatype fault = Panic | Assert_failed | Undefined_behaviour

text \<open>
  The collaborators of the dispatcher and the constants of headers that are not part of
  the sources at hand are parameters. \<open>'x\<close> is the state of the partition manager
  (service table, connection handles, message pool, queues).
\<close>

record 'x env =
  PSA_MAX_IOVEC :: size_t
  PSA_VERSION_NONE :: uint32_t
  PSA_NULL_HANDLE :: psa_handle_t
  IPC_SUCCESS :: int32_t
  TFM_PARTITION_UNPRIVILEGED_MODE :: uint32_t
  tfm_spm_get_service_by_sid :: "'x \<Rightarrow> uint32_t \<Rightarrow> tfm_spm_service_t option"
  tfm_spm_get_service_by_handle :: "'x \<Rightarrow> psa_handle_t \<Rightarrow> tfm_spm_service_t option"
  tfm_spm_check_client_version :: "tfm_spm_service_t \<Rightarrow> uint32_t \<Rightarrow> int32_t"
  tfm_memory_check :: "'x \<Rightarrow> addr \<Rightarrow> size_t \<Rightarrow> int32_t \<Rightarrow> int32_t"
  tfm_spm_create_msg :: "'x \<Rightarrow> msg_args \<Rightarrow> msg_ptr option \<times> 'x"
  tfm_spm_send_event :: "'x \<Rightarrow> tfm_spm_service_t \<Rightarrow> msg_ptr \<Rightarrow> int32_t \<times> 'x"

text \<open>
  Caller-visible memory gives the byte stored at each address. The machine state is the
  partition manager's state, the caller-visible memory and the log of events.
\<close>

type_synonym memory = "addr \<Rightarrow> 8 word"

record 'x state =
  spm :: 'x
  mem :: memory
  trace :: "event list"

type_synonym ('x, 'a) result = "(fault + 'a) \<times> 'x state"

section \<open>Calls to the collaborators\<close>

definition log_event :: "event \<Rightarrow> 'x state \<Rightarrow> 'x state" where
  "log_event e s = s\<lparr>trace := trace s @ [e]\<rparr>"

definition memory_check :: "'x env \<Rightarrow> addr \<Rightarrow> size_t \<Rightarrow> int32_t \<Rightarrow> 'x state \<Rightarrow> int32_t \<times> 'x state" where
  "memory_check env buffer n ns_caller s =
     (let r = tfm_memory_check env (spm s) buffer n ns_caller
      in (r, log_event (Memory_check buffer n ns_caller r) s))"

definition create_msg :: "'x env \<Rightarrow> msg_args \<Rightarrow> 'x state \<Rightarrow> msg_ptr option \<times> 'x state" where
  "create_msg env args s =
     (case tfm_spm_create_msg env (spm s) args of
        (msg, x) \<Rightarrow> (msg, log_event (Create_msg args msg) (s\<lparr>spm := x\<rparr>)))"

definition send_event :: "'x env \<Rightarrow> tfm_spm_service_t \<Rightarrow> msg_ptr \<Rightarrow> 'x state \<Rightarrow> int32_t \<times> 'x state" where
  "send_event env service msg s =
     (case tfm_spm_send_event env (spm s) service msg of
        (r, x) \<Rightarrow> (r, log_event (Send_event service msg r) (s\<lparr>spm := x\<rparr>)))"

section \<open>The client-call entry points (tfm\_psa\_client\_call.c)\<close>

definition tfm_psa_version :: "'x env \<Rightarrow> uint32_t \<Rightarrow> int32_t \<Rightarrow> 'x state \<Rightarrow> ('x, uint32_t) result" where
  "tfm_psa_version env sid ns_caller s =
     (case tfm_spm_get_service_by_sid env (spm s) sid of
        None \<Rightarrow> (Inr (PSA_VERSION_NONE env), s)
      | Some service \<Rightarrow>
          if ns_caller \<noteq> 0 \<and> \<not> non_secure_client (service_db service)
          then (Inr (PSA_VERSION_NONE env), s)
          else (Inr (minor_version (service_db service)), s))"

definition connect_msg_args :: "'x env \<Rightarrow> tfm_spm_service_t \<Rightarrow> int32_t \<Rightarrow> msg_args" where
  "connect_msg_args env service ns_caller =
     \<lparr>arg_service = service, arg_handle = PSA_NULL_HANDLE env, arg_type = PSA_IPC_CONNECT,
      arg_ns_caller = ns_caller, arg_invec = None, arg_in_len = 0, arg_outvec = None,
      arg_out_len = 0, arg_caller_outvec = 0\<rparr>"

definition tfm_psa_connect :: "'x env \<Rightarrow> uint32_t \<Rightarrow> uint32_t \<Rightarrow> int32_t \<Rightarrow> 'x state \<Rightarrow> ('x, psa_status_t) result" where
  "tfm_psa_connect env sid minor ns_caller s =
     (case tfm_spm_get_service_by_sid env (spm s) sid of
        None \<Rightarrow> (Inl Panic, s)
      | Some service \<Rightarrow>
          if ns_caller \<noteq> 0 \<and> \<not> non_secure_client (service_db service) then (Inl Panic, s)
          else if tfm_spm_check_client_version env service minor \<noteq> IPC_SUCCESS env
          then (Inl Panic, s)
          else
            (case create_msg env (connect_msg_args env service ns_caller) s of
               (None, s1) \<Rightarrow> (Inr PSA_CONNECTION_BUSY, s1)
             | (Some msg, s1) \<Rightarrow>
                 (case send_event env service msg s1 of
                    (r, s2) \<Rightarrow> (Inr PSA_SUCCESS, s2))))"

subsection \<open>call: the local copies\<close>

definition zero_iovec :: psa_invec where
  "zero_iovec = \<lparr>base = 0, len = 0\<rparr>"

text \<open>
  A 32-bit value in memory is four bytes, the least significant first (the secure core is
  little-endian). A descriptor is its \<open>base\<close> followed by its \<open>len\<close>.
\<close>

definition read_word :: "memory \<Rightarrow> addr \<Rightarrow> 32 word" where
  "read_word m p =
     ucast (m p) + 0x100 * ucast (m (p + 1)) + 0x10000 * ucast (m (p + 2))
       + 0x1000000 * ucast (m (p + 3))"

definition read_iovec :: "memory \<Rightarrow> addr \<Rightarrow> psa_invec" where
  "read_iovec m p = \<lparr>base = read_word m p, len = read_word m (p + 4)\<rparr>"

text \<open>
  \<open>tfm_memset\<close> of the local array followed by \<open>tfm_memcpy\<close> of \<open>n\<close> bytes from the
  caller's array at \<open>p\<close>. The byte count is the wrapped product the source passes, always
  a multiple of the element size. A count beyond the size of the local array writes past
  it: \<open>None\<close>.
\<close>

definition copy_iovecs :: "'x env \<Rightarrow> memory \<Rightarrow> addr \<Rightarrow> size_t \<Rightarrow> psa_invec list option" where
  "copy_iovecs env m p n =
     (if uint sizeof_iovec * uint (PSA_MAX_IOVEC env) < uint n then None
      else Some (map (\<lambda>j. read_iovec m (p + sizeof_iovec * of_nat j))
                   [0 ..< nat (uint n div uint sizeof_iovec)]
                 @ replicate (nat (uint (PSA_MAX_IOVEC env) - uint n div uint sizeof_iovec))
                     zero_iovec))"

text \<open>
  The loop \<open>for (i = 0; i < n; i++)\<close> over a local array, \<open>i\<close> an \<open>int\<close> compared with
  the \<open>size_t\<close> bound as an unsigned value. Reading \<open>vecs[i]\<close> beyond the array and
  incrementing \<open>i\<close> beyond \<open>INT_MAX\<close> are undefined.
\<close>

function check_iovecs :: "'x env \<Rightarrow> int32_t \<Rightarrow> psa_invec list \<Rightarrow> size_t \<Rightarrow> nat \<Rightarrow> 'x state \<Rightarrow> ('x, unit) result" where
  "check_iovecs env ns_caller vecs n i s =
     (if int i < uint n then
        (if length vecs \<le> i then (Inl Undefined_behaviour, s)
         else
           (case memory_check env (base (vecs ! i)) (len (vecs ! i)) ns_caller s of
              (r, s1) \<Rightarrow>
                if r \<noteq> IPC_SUCCESS env then (Inl Panic, s1)
                else if 2 ^ 31 \<le> int (Suc i) then (Inl Undefined_behaviour, s1)
                else check_iovecs env ns_caller vecs n (Suc i) s1))
      else (Inr (), s))"
  by pat_completeness auto
termination
  by (relation "measure (\<lambda>(env, ns_caller, vecs, n, i, s). nat (uint n - int i))") auto

declare check_iovecs.simps [simp del]

subsection \<open>call\<close>

definition call_msg_args :: "tfm_spm_service_t \<Rightarrow> psa_handle_t \<Rightarrow> int32_t \<Rightarrow> psa_invec list \<Rightarrow> size_t \<Rightarrow> psa_outvec list \<Rightarrow> size_t \<Rightarrow> addr \<Rightarrow> msg_args" where
  "call_msg_args service hdl ns_caller invecs in_len outvecs out_len out_vec =
     \<lparr>arg_service = service, arg_handle = hdl, arg_type = PSA_IPC_CALL,
      arg_ns_caller = ns_caller, arg_invec = Some invecs, arg_in_len = in_len,
      arg_outvec = Some outvecs, arg_out_len = out_len, arg_caller_outvec = out_vec\<rparr>"

text \<open>
  The first half of \<open>tfm_psa_call\<close>: the count check, the handle, the range checks of
  the two descriptor arrays, and the copies into \<open>invecs\<close> and \<open>outvecs\<close>.
\<close>

definition call_copy_in :: "'x env \<Rightarrow> psa_handle_t \<Rightarrow> addr \<Rightarrow> size_t \<Rightarrow> addr \<Rightarrow> size_t \<Rightarrow> int32_t \<Rightarrow> 'x state \<Rightarrow> ('x, tfm_spm_service_t \<times> psa_invec list \<times> psa_outvec list) result" where
  "call_copy_in env hdl in_vec in_len out_vec out_len ns_caller s =
     (if PSA_MAX_IOVEC env < in_len + out_len then (Inl Panic, s)
      else
        (case tfm_spm_get_service_by_handle env (spm s) hdl of
           None \<Rightarrow> (Inl Panic, s)
         | Some service \<Rightarrow>
             (case memory_check env in_vec (in_len * sizeof_iovec) ns_caller s of
                (r1, s1) \<Rightarrow>
                  if r1 \<noteq> IPC_SUCCESS env then (Inl Panic, s1)
                  else
                    (case memory_check env out_vec (out_len * sizeof_iovec) ns_caller s1 of
                       (r2, s2) \<Rightarrow>
                         if r2 \<noteq> IPC_SUCCESS env then (Inl Panic, s2)
                         else
                           (case copy_iovecs env (mem s2) in_vec (in_len * sizeof_iovec) of
                              None \<Rightarrow> (Inl Undefined_behaviour, s2)
                            | Some invecs \<Rightarrow>
                                (let s3 = log_event (Copy_from_caller in_vec (in_len * sizeof_iovec)) s2
                                 in case copy_iovecs env (mem s3) out_vec (out_len * sizeof_iovec) of
                                      None \<Rightarrow> (Inl Undefined_behaviour, s3)
                                    | Some outvecs \<Rightarrow>
                                        (Inr (service, invecs, outvecs),
                                         log_event (Copy_from_caller out_vec (out_len * sizeof_iovec)) s3)))))))"

text \<open>
  The second half: the per-element checks on the local copies, the message, the hand-off.
\<close>

definition call_dispatch :: "'x env \<Rightarrow> tfm_spm_service_t \<Rightarrow> psa_handle_t \<Rightarrow> psa_invec list \<Rightarrow> size_t \<Rightarrow> psa_outvec list \<Rightarrow> size_t \<Rightarrow> addr \<Rightarrow> int32_t \<Rightarrow> 'x state \<Rightarrow> ('x, psa_status_t) result" where
  "call_dispatch env service hdl invecs in_len outvecs out_len out_vec ns_caller s =
     (case check_iovecs env ns_caller invecs in_len 0 s of
        (Inl f, s1) \<Rightarrow> (Inl f, s1)
      | (Inr u, s1) \<Rightarrow>
          (case check_iovecs env ns_caller outvecs out_len 0 s1 of
             (Inl f, s2) \<Rightarrow> (Inl f, s2)
           | (Inr v, s2) \<Rightarrow>
               (case create_msg env
                       (call_msg_args service hdl ns_caller invecs in_len outvecs out_len out_vec) s2 of
                  (None, s3) \<Rightarrow> (Inl Panic, s3)
                | (Some msg, s3) \<Rightarrow>
                    (case send_event env service msg s3 of
                       (r, s4) \<Rightarrow>
                         if r \<noteq> IPC_SUCCESS env then (Inl Panic, s4)
                         else (Inr PSA_SUCCESS, s4)))))"

definition tfm_psa_call :: "'x env \<Rightarrow> psa_handle_t \<Rightarrow> addr \<Rightarrow> size_t \<Rightarrow> addr \<Rightarrow> size_t \<Rightarrow> int32_t \<Rightarrow> 'x state \<Rightarrow> ('x, psa_status_t) result" where
  "tfm_psa_call env hdl in_vec in_len out_vec out_len ns_caller s =
     (case call_copy_in env hdl in_vec in_len out_vec out_len ns_caller s of
        (Inl f, s1) \<Rightarrow> (Inl f, s1)
      | (Inr (service, invecs, outvecs), s1) \<Rightarrow>
          call_dispatch env service hdl invecs in_len outvecs out_len out_vec ns_caller s1)"

text \<open>
  \<open>tfm_psa_call\<close> while the caller writes to its own memory: \<open>mutate\<close> is everything
  the caller stores between the end of the copies and the return of the call. The second
  half of the call neither reads nor writes caller memory, so stores spread over its steps
  have the effect of their composition applied once, right after the copies.
\<close>

definition tfm_psa_call_racing :: "'x env \<Rightarrow> (memory \<Rightarrow> memory) \<Rightarrow> psa_handle_t \<Rightarrow> addr \<Rightarrow> size_t \<Rightarrow> addr \<Rightarrow> size_t \<Rightarrow> int32_t \<Rightarrow> 'x state \<Rightarrow> ('x, psa_status_t) result" where
  "tfm_psa_call_racing env mutate hdl in_vec in_len out_vec out_len ns_caller s =
     (case call_copy_in env hdl in_vec in_len out_vec out_len ns_caller s of
        (Inl f, s1) \<Rightarrow> (Inl f, s1)
      | (Inr (service, invecs, outvecs), s1) \<Rightarrow>
          call_dispatch env service hdl invecs in_len outvecs out_len out_vec ns_caller
            (s1\<lparr>mem := mutate (mem s1)\<rparr>))"

subsection \<open>close\<close>

definition close_msg_args :: "tfm_spm_service_t \<Rightarrow> psa_handle_t \<Rightarrow> int32_t \<Rightarrow> msg_args" where
  "close_msg_args service hdl ns_caller =
     \<lparr>arg_service = service, arg_handle = hdl, arg_type = PSA_IPC_DISCONNECT,
      arg_ns_caller = ns_caller, arg_invec = None, arg_in_len = 0, arg_outvec = None,
      arg_out_len = 0, arg_caller_outvec = 0\<rparr>"

definition tfm_psa_close :: "'x env \<Rightarrow> psa_handle_t \<Rightarrow> int32_t \<Rightarrow> 'x state \<Rightarrow> ('x, unit) result" where
  "tfm_psa_close env hdl ns_caller s =
     (if hdl = PSA_NULL_HANDLE env then (Inr (), s)
      else
        (case tfm_spm_get_service_by_handle env (spm s) hdl of
           None \<Rightarrow> (Inl Panic, s)
         | Some service \<Rightarrow>
             (case create_msg env (close_msg_args service hdl ns_caller) s of
                (None, s1) \<Rightarrow> (Inr (), s1)
              | (Some msg, s1) \<Rightarrow>
                  (case send_event env service msg s1 of
                     (r, s2) \<Rightarrow> (Inr (), s2)))))"

section \<open>The RPC layer (tfm\_rpc.c)\<close>

text \<open>
  A handler reference is one of the two static no-op functions of the file or a function
  of a transport, known by its address; \<open>None\<close> is the null function pointer.
\<close>

datatype handle_req_fn = default_handle_req | handle_req_at addr

datatype reply_fn = default_mailbox_reply | reply_at addr

record tfm_rpc_ops_t =
  handle_req :: "handle_req_fn option"
  reply :: "reply_fn option"

datatype rpc_status = TFM_RPC_SUCCESS | TFM_RPC_INVAL_PARAM | TFM_RPC_CONFLICT_CALLBACK

text \<open>The initial value of the static \<open>rpc_ops\<close>.\<close>

definition rpc_ops_init :: tfm_rpc_ops_t where
  "rpc_ops_init = \<lparr>handle_req = Some default_handle_req, reply = Some default_mailbox_reply\<rparr>"

definition tfm_rpc_register_ops :: "tfm_rpc_ops_t option \<Rightarrow> tfm_rpc_ops_t \<Rightarrow> rpc_status \<times> tfm_rpc_ops_t" where
  "tfm_rpc_register_ops ops_ptr rpc_ops =
     (case ops_ptr of
        None \<Rightarrow> (TFM_RPC_INVAL_PARAM, rpc_ops)
      | Some ops \<Rightarrow>
          if handle_req ops = None \<or> reply ops = None then (TFM_RPC_INVAL_PARAM, rpc_ops)
          else if handle_req rpc_ops \<noteq> Some default_handle_req
                  \<or> reply rpc_ops \<noteq> Some default_mailbox_reply
          then (TFM_RPC_CONFLICT_CALLBACK, rpc_ops)
          else (TFM_RPC_SUCCESS, rpc_ops\<lparr>handle_req := handle_req ops, reply := reply ops\<rparr>))"

definition tfm_rpc_unregister_ops :: "tfm_rpc_ops_t \<Rightarrow> tfm_rpc_ops_t" where
  "tfm_rpc_unregister_ops rpc_ops =
     rpc_ops\<lparr>handle_req := Some default_handle_req, reply := Some default_mailbox_reply\<rparr>"

subsection \<open>The parameter-block wrappers\<close>

record client_call_params_t =
  params_sid :: uint32_t
  params_handle :: psa_handle_t
  params_type :: int32_t
  params_in_vec :: addr
  params_in_len :: size_t
  params_out_vec :: addr
  params_out_len :: size_t
  params_version :: uint32_t

text \<open>A \<open>bool\<close> argument passed for an \<open>int32_t\<close> parameter: 1 or 0.\<close>

definition bool_to_int32 :: "bool \<Rightarrow> int32_t" where
  "bool_to_int32 b = (if b then 1 else 0)"

definition tfm_rpc_psa_version :: "'x env \<Rightarrow> client_call_params_t option \<Rightarrow> bool \<Rightarrow> 'x state \<Rightarrow> ('x, uint32_t) result" where
  "tfm_rpc_psa_version env params ns_caller s =
     (case params of
        None \<Rightarrow> (Inl Assert_failed, s)
      | Some p \<Rightarrow> tfm_psa_version env (params_sid p) (bool_to_int32 ns_caller) s)"

definition tfm_rpc_psa_connect :: "'x env \<Rightarrow> client_call_params_t option \<Rightarrow> bool \<Rightarrow> 'x state \<Rightarrow> ('x, psa_status_t) result" where
  "tfm_rpc_psa_connect env params ns_caller s =
     (case params of
        None \<Rightarrow> (Inl Assert_failed, s)
      | Some p \<Rightarrow>
          tfm_psa_connect env (params_sid p) (params_version p) (bool_to_int32 ns_caller) s)"

text \<open>
  A call of \<open>tfm_psa_call\<close> with a list of actual arguments, each a 32-bit scalar or
  pointer. \<open>tfm_psa_call\<close> is defined with six parameters; a call with another number
  of arguments has no defined behaviour in C.
\<close>

definition invoke_tfm_psa_call :: "'x env \<Rightarrow> 32 word list \<Rightarrow> 'x state \<Rightarrow> ('x, psa_status_t) result" where
  "invoke_tfm_psa_call env actuals s =
     (case actuals of
        [hdl, in_vec, in_len, out_vec, out_len, ns_caller] \<Rightarrow>
          tfm_psa_call env hdl in_vec in_len out_vec out_len ns_caller s
      | _ \<Rightarrow> (Inl Undefined_behaviour, s))"

definition tfm_rpc_psa_call :: "'x env \<Rightarrow> client_call_params_t option \<Rightarrow> bool \<Rightarrow> 'x state \<Rightarrow> ('x, psa_status_t) result" where
  "tfm_rpc_psa_call env params ns_caller s =
     (case params of
        None \<Rightarrow> (Inl Assert_failed, s)
      | Some p \<Rightarrow>
          invoke_tfm_psa_call env
            [params_handle p, params_type p, params_in_vec p, params_in_len p,
             params_out_vec p, params_out_len p, bool_to_int32 ns_caller,
             TFM_PARTITION_UNPRIVILEGED_MODE env] s)"

definition tfm_rpc_psa_close :: "'x env \<Rightarrow> client_call_params_t option \<Rightarrow> bool \<Rightarrow> 'x state \<Rightarrow> ('x, unit) result" where
  "tfm_rpc_psa_close env params ns_caller s =
     (case params of
        None \<Rightarrow> (Inl Assert_failed, s)
      | Some p \<Rightarrow> tfm_psa_close env (params_handle p) (bool_to_int32 ns_caller) s)"

section \<open>An example platform\<close>

text \<open>
  A small platform on which the entry points can be run. Service 7 has minor version 2
  and accepts less-trusted callers; service 8 has minor version 1 and does not. Handle 1
  is a live connection to service 7. A client may ask for any minor version up to the
  service's own. The memory at 0x20000000 .. 0x2000FFFF is legal for every caller, and so
  is every empty range. The partition manager's state is the number of free message
  objects. The hand-off to the event path returns \<open>send_status\<close>.
\<close>

definition service7 :: tfm_spm_service_t where
  "service7 = \<lparr>service_db = \<lparr>non_secure_client = True, minor_version = 2\<rparr>\<rparr>"

definition service8 :: tfm_spm_service_t where
  "service8 = \<lparr>service_db = \<lparr>non_secure_client = False, minor_version = 1\<rparr>\<rparr>"

definition example_env :: "int32_t \<Rightarrow> nat env" where
  "example_env send_status =
     \<lparr>PSA_MAX_IOVEC = 4, PSA_VERSION_NONE = 0, PSA_NULL_HANDLE = 0, IPC_SUCCESS = 0,
      TFM_PARTITION_UNPRIVILEGED_MODE = 0,
      tfm_spm_get_service_by_sid =
        (\<lambda>x sid. if sid = 7 then Some service7 else if sid = 8 then Some service8 else None),
      tfm_spm_get_service_by_handle = (\<lambda>x hdl. if hdl = 1 then Some service7 else None),
      tfm_spm_check_client_version =
        (\<lambda>service minor. if minor \<le> minor_version (service_db service) then 0 else 1),
      tfm_memory_check =
        (\<lambda>x p n ns_caller.
           if n = 0 \<or> (0x20000000 \<le> uint p \<and> uint p + uint n \<le> 0x20010000) then 0 else 1),
      tfm_spm_create_msg =
        (\<lambda>x args. if x = 0 then (None, x) else (Some (0x30000000 + of_nat x), x - 1)),
      tfm_spm_send_event = (\<lambda>x service msg. (send_status, x))\<rparr>"

text \<open>A store of a 32-bit value by the caller.\<close>

definition store_word :: "addr \<Rightarrow> 32 word \<Rightarrow> memory \<Rightarrow> memory" where
  "store_word p w m =
     m(p := ucast w, p + 1 := ucast (drop_bit 8 w), p + 2 := ucast (drop_bit 16 w),
       p + 3 := ucast (drop_bit 24 w))"

definition store_iovec :: "addr \<Rightarrow> psa_invec \<Rightarrow> memory \<Rightarrow> memory" where
  "store_iovec p v m = store_word (p + 4) (len v) (store_word p (base v) m)"

text \<open>
  Caller memory holding an input descriptor at 0x20000100, a buffer of 16 bytes at
  0x20000200, and an output descriptor at 0x20000110, a buffer of 32 bytes at 0x20000300.
\<close>

definition example_mem :: memory where
  "example_mem =
     store_iovec 0x20000110 \<lparr>base = 0x20000300, len = 32\<rparr>
       (store_iovec 0x20000100 \<lparr>base = 0x20000200, len = 16\<rparr> (\<lambda>a. 0))"

definition example_state :: "nat \<Rightarrow> nat state" where
  "example_state free = \<lparr>spm = free, mem = example_mem, trace = []\<rparr>"

text \<open>The messages the example calls ask for, and two transports' handler pairs.\<close>

definition example_connect_args :: msg_args where
  "example_connect_args =
     \<lparr>arg_service = service7, arg_handle = 0, arg_type = PSA_IPC_CONNECT, arg_ns_caller = 1,
      arg_invec = None, arg_in_len = 0, arg_outvec = None, arg_out_len = 0,
      arg_caller_outvec = 0\<rparr>"

definition example_close_args :: msg_args where
  "example_close_args =
     \<lparr>arg_service = service7, arg_handle = 1, arg_type = PSA_IPC_DISCONNECT, arg_ns_caller = 1,
      arg_invec = None, arg_in_len = 0, arg_outvec = None, arg_out_len = 0,
      arg_caller_outvec = 0\<rparr>"

definition example_ops :: tfm_rpc_ops_t where
  "example_ops = \<lparr>handle_req = Some (handle_req_at 0x1000), reply = Some (reply_at 0x2000)\<rparr>"

definition other_ops :: tfm_rpc_ops_t where
  "other_ops = \<lparr>handle_req = Some (handle_req_at 0x3000), reply = Some (reply_at 0x4000)\<rparr>"




text \<open>A parameter block for a call on handle 1 with the input descriptor.\<close>

definition example_params :: client_call_params_t where
  "example_params =
     \<lparr>params_sid = 0, params_handle = 1, params_type = 0, params_in_vec = 0x20000100,
      params_in_len = 1, params_out_vec = 0, params_out_len = 0, params_version = 0\<rparr>"

section \<open>Notions used in the statements\<close>

text \<open>The events an entry point added to the log between two states.\<close>

definition new_events :: "'x state \<Rightarrow> 'x state \<Rightarrow> event list" where
  "new_events s s' = drop (length (trace s)) (trace s')"

text \<open>A result with the caller memory of its final state replaced.\<close>

definition with_mem :: "memory \<Rightarrow> ('x, 'a) result \<Rightarrow> ('x, 'a) result" where
  "with_mem m r = (fst r, (snd r)\<lparr>mem := m\<rparr>)"

text \<open>The events that are hand-offs to the event path.\<close>

definition is_send :: "event \<Rightarrow> bool" where
  "is_send e = (case e of Send_event service msg r \<Rightarrow> True | _ \<Rightarrow> False)"

text \<open>\<open>extends s s' es\<close>: the log of \<open>s'\<close> is the log of \<open>s\<close> followed by \<open>es\<close>.\<close>

definition extends :: "'x state \<Rightarrow> 'x state \<Rightarrow> event list \<Rightarrow> bool" where
  "extends s s' es = (trace s' = trace s @ es)"

subsection \<open>The call on a snapshot, as the specification describes it\<close>





section \<open>Properties of the version query and of connect\<close>

text \<open>
  C5. For every service identifier and caller trust level, \<open>tfm_psa_version\<close> returns
  \<open>PSA_VERSION_NONE\<close> when the identifier does not resolve, or when it resolves and the
  caller is less trusted (\<open>ns_caller\<close> nonzero) and the service does not accept
  less-trusted callers; otherwise it returns the service's minor version. It always
  returns (no fault) and leaves the state as it was.
\<close>

theorem tfm_psa_version_result:
  "tfm_psa_version env sid ns_caller s =
     (Inr (case tfm_spm_get_service_by_sid env (spm s) sid of
             None \<Rightarrow> PSA_VERSION_NONE env
           | Some service \<Rightarrow>
               if ns_caller \<noteq> 0 \<and> \<not> non_secure_client (service_db service)
               then PSA_VERSION_NONE env
               else minor_version (service_db service)), s)"
  by (simp add: tfm_psa_version_def split: option.split)

theorem tfm_psa_version_result_witness:
  "tfm_psa_version (example_env 0) 7 1 (example_state 1) = (Inr 2, example_state 1)
   \<and> tfm_psa_version (example_env 0) 8 1 (example_state 1) = (Inr 0, example_state 1)
   \<and> tfm_psa_version (example_env 0) 8 0 (example_state 1) = (Inr 1, example_state 1)
   \<and> tfm_psa_version (example_env 0) 42 1 (example_state 1) = (Inr 0, example_state 1)"
  using tfm_psa_version_result [of "example_env 0" 7 1 "example_state 1"]
    tfm_psa_version_result [of "example_env 0" 8 1 "example_state 1"]
    tfm_psa_version_result [of "example_env 0" 8 0 "example_state 1"]
    tfm_psa_version_result [of "example_env 0" 42 1 "example_state 1"]
  by (simp add: example_env_def example_state_def service7_def service8_def)

text \<open>
  C3. When the service identifier resolves, the caller's trust level is authorized for
  the service and the version check passes, \<open>tfm_psa_connect\<close> asks for one message of
  type connect with the null handle, no vectors and the caller's trust level. If none is
  built it returns \<open>PSA_CONNECTION_BUSY\<close> and nothing reaches the event path. Otherwise
  that one message is handed to the event path and the result is \<open>PSA_SUCCESS\<close>. There
  is no fault and no other status on this path.
\<close>

theorem tfm_psa_connect_valid:
  assumes "tfm_spm_get_service_by_sid env (spm s) sid = Some service"
    and "ns_caller = 0 \<or> non_secure_client (service_db service)"
    and "tfm_spm_check_client_version env service minor = IPC_SUCCESS env"
    and "args = \<lparr>arg_service = service, arg_handle = PSA_NULL_HANDLE env,
                  arg_type = PSA_IPC_CONNECT, arg_ns_caller = ns_caller, arg_invec = None,
                  arg_in_len = 0, arg_outvec = None, arg_out_len = 0, arg_caller_outvec = 0\<rparr>"
  shows "tfm_psa_connect env sid minor ns_caller s =
     (case tfm_spm_create_msg env (spm s) args of
        (None, x) \<Rightarrow>
          (Inr PSA_CONNECTION_BUSY, s\<lparr>spm := x, trace := trace s @ [Create_msg args None]\<rparr>)
      | (Some msg, x) \<Rightarrow>
          (case tfm_spm_send_event env x service msg of
             (r, x') \<Rightarrow>
               (Inr PSA_SUCCESS,
                s\<lparr>spm := x',
                  trace := trace s @ [Create_msg args (Some msg), Send_event service msg r]\<rparr>)))"
  using assms
  by (auto simp: tfm_psa_connect_def connect_msg_args_def create_msg_def send_event_def
      log_event_def split: prod.split option.split)

lemma example_connect_hyps:
  "tfm_spm_get_service_by_sid (example_env r) (spm (example_state free)) 7 = Some service7"
  "(1 :: int32_t) = 0 \<or> non_secure_client (service_db service7)"
  "tfm_spm_check_client_version (example_env r) service7 2 = IPC_SUCCESS (example_env r)"
  "example_connect_args =
     \<lparr>arg_service = service7, arg_handle = PSA_NULL_HANDLE (example_env r),
      arg_type = PSA_IPC_CONNECT, arg_ns_caller = 1, arg_invec = None, arg_in_len = 0,
      arg_outvec = None, arg_out_len = 0, arg_caller_outvec = 0\<rparr>"
  by (simp_all add: example_env_def example_state_def service7_def example_connect_args_def)

theorem tfm_psa_connect_valid_witness:
  "tfm_psa_connect (example_env 0) 7 2 1 (example_state 1) =
     (Inr PSA_SUCCESS,
      \<lparr>spm = 0, mem = example_mem,
       trace = [Create_msg example_connect_args (Some 0x30000001),
                Send_event service7 0x30000001 0]\<rparr>)
   \<and> tfm_psa_connect (example_env 0) 7 2 1 (example_state 0) =
     (Inr PSA_CONNECTION_BUSY,
      \<lparr>spm = 0, mem = example_mem, trace = [Create_msg example_connect_args None]\<rparr>)"
  using tfm_psa_connect_valid [OF example_connect_hyps, of 0 1]
    tfm_psa_connect_valid [OF example_connect_hyps, of 0 0]
  by (simp add: example_env_def example_state_def)

section \<open>Properties of close\<close>

text \<open>
  C7. For every caller trust level, \<open>tfm_psa_close\<close> with the null handle returns at
  once: no fault, no message built, nothing handed to the event path, the state unchanged.
\<close>

theorem tfm_psa_close_null_handle:
  "tfm_psa_close env (PSA_NULL_HANDLE env) ns_caller s = (Inr (), s)"
  by (simp add: tfm_psa_close_def)

text \<open>
  C8. For a handle that is not null and resolves to a live connection, \<open>tfm_psa_close\<close>
  asks for one message of type disconnect with no vectors. If none is built it returns
  normally, with nothing handed to the event path and no error reported. If one is
  built, exactly that message is handed to the event path and the call returns.
\<close>

theorem tfm_psa_close_live_handle:
  assumes "hdl \<noteq> PSA_NULL_HANDLE env"
    and "tfm_spm_get_service_by_handle env (spm s) hdl = Some service"
    and "args = \<lparr>arg_service = service, arg_handle = hdl, arg_type = PSA_IPC_DISCONNECT,
                  arg_ns_caller = ns_caller, arg_invec = None, arg_in_len = 0,
                  arg_outvec = None, arg_out_len = 0, arg_caller_outvec = 0\<rparr>"
  shows "tfm_psa_close env hdl ns_caller s =
     (case tfm_spm_create_msg env (spm s) args of
        (None, x) \<Rightarrow> (Inr (), s\<lparr>spm := x, trace := trace s @ [Create_msg args None]\<rparr>)
      | (Some msg, x) \<Rightarrow>
          (case tfm_spm_send_event env x service msg of
             (r, x') \<Rightarrow>
               (Inr (),
                s\<lparr>spm := x',
                  trace := trace s @ [Create_msg args (Some msg), Send_event service msg r]\<rparr>)))"
  using assms
  by (auto simp: tfm_psa_close_def close_msg_args_def create_msg_def send_event_def
      log_event_def split: prod.split option.split)

lemma example_close_hyps:
  "(1 :: psa_handle_t) \<noteq> PSA_NULL_HANDLE (example_env r)"
  "tfm_spm_get_service_by_handle (example_env r) (spm (example_state free)) 1 = Some service7"
  "example_close_args =
     \<lparr>arg_service = service7, arg_handle = 1, arg_type = PSA_IPC_DISCONNECT,
      arg_ns_caller = 1, arg_invec = None, arg_in_len = 0, arg_outvec = None,
      arg_out_len = 0, arg_caller_outvec = 0\<rparr>"
  by (simp_all add: example_env_def example_state_def example_close_args_def)

theorem tfm_psa_close_live_handle_witness:
  "tfm_psa_close (example_env 0) 1 1 (example_state 0) =
     (Inr (), \<lparr>spm = 0, mem = example_mem, trace = [Create_msg example_close_args None]\<rparr>)
   \<and> tfm_psa_close (example_env 0) 1 1 (example_state 1) =
     (Inr (),
      \<lparr>spm = 0, mem = example_mem,
       trace = [Create_msg example_close_args (Some 0x30000001),
                Send_event service7 0x30000001 0]\<rparr>)"
  using tfm_psa_close_live_handle [OF example_close_hyps, of 0 0]
    tfm_psa_close_live_handle [OF example_close_hyps, of 0 1]
  by (simp add: example_env_def example_state_def)

section \<open>Properties of the RPC operations slot\<close>

text \<open>
  C4. \<open>tfm_rpc_register_ops\<close> returns \<open>TFM_RPC_INVAL_PARAM\<close> when the operations
  pointer is null or one of the two handlers in it is null. With both handlers present
  it returns \<open>TFM_RPC_CONFLICT_CALLBACK\<close> when the slot holds something other than the
  two defaults, and otherwise installs both handlers and returns \<open>TFM_RPC_SUCCESS\<close>.
  Whenever it does not succeed the slot is as it was, so a registration in place is
  never replaced by a second one.
\<close>

theorem tfm_rpc_register_ops_result:
  "tfm_rpc_register_ops None rpc_ops = (TFM_RPC_INVAL_PARAM, rpc_ops)
   \<and> (handle_req ops = None \<or> reply ops = None \<longrightarrow>
        tfm_rpc_register_ops (Some ops) rpc_ops = (TFM_RPC_INVAL_PARAM, rpc_ops))
   \<and> (handle_req ops \<noteq> None \<and> reply ops \<noteq> None \<and> rpc_ops \<noteq> rpc_ops_init \<longrightarrow>
        tfm_rpc_register_ops (Some ops) rpc_ops = (TFM_RPC_CONFLICT_CALLBACK, rpc_ops))
   \<and> (handle_req ops \<noteq> None \<and> reply ops \<noteq> None \<and> rpc_ops = rpc_ops_init \<longrightarrow>
        tfm_rpc_register_ops (Some ops) rpc_ops = (TFM_RPC_SUCCESS, ops))
   \<and> (fst (tfm_rpc_register_ops ops_ptr rpc_ops) \<noteq> TFM_RPC_SUCCESS \<longrightarrow>
        snd (tfm_rpc_register_ops ops_ptr rpc_ops) = rpc_ops)"
  by (cases rpc_ops; cases ops; cases ops_ptr)
    (auto simp: tfm_rpc_register_ops_def rpc_ops_init_def)

theorem tfm_rpc_register_ops_result_witness:
  "tfm_rpc_register_ops None example_ops = (TFM_RPC_INVAL_PARAM, example_ops)
   \<and> tfm_rpc_register_ops (Some \<lparr>handle_req = Some (handle_req_at 0x3000), reply = None\<rparr>)
        rpc_ops_init = (TFM_RPC_INVAL_PARAM, rpc_ops_init)
   \<and> tfm_rpc_register_ops (Some other_ops) example_ops
        = (TFM_RPC_CONFLICT_CALLBACK, example_ops)
   \<and> tfm_rpc_register_ops (Some example_ops) rpc_ops_init = (TFM_RPC_SUCCESS, example_ops)"
  using tfm_rpc_register_ops_result [of example_ops other_ops None]
    tfm_rpc_register_ops_result
      [of rpc_ops_init "\<lparr>handle_req = Some (handle_req_at 0x3000), reply = None\<rparr>" None]
    tfm_rpc_register_ops_result [of rpc_ops_init example_ops None]
  by (simp add: example_ops_def other_ops_def rpc_ops_init_def)

text \<open>
  C9. \<open>tfm_rpc_unregister_ops\<close> puts the two defaults into the slot whatever the slot
  held. A second \<open>tfm_rpc_unregister_ops\<close> changes nothing. After it, from any earlier
  state of the slot, \<open>tfm_rpc_register_ops\<close> with two handlers present succeeds and
  installs them.
\<close>

theorem tfm_rpc_unregister_ops_result:
  "tfm_rpc_unregister_ops rpc_ops = rpc_ops_init
   \<and> tfm_rpc_unregister_ops (tfm_rpc_unregister_ops rpc_ops) = tfm_rpc_unregister_ops rpc_ops
   \<and> (handle_req ops \<noteq> None \<and> reply ops \<noteq> None \<longrightarrow>
        tfm_rpc_register_ops (Some ops) (tfm_rpc_unregister_ops rpc_ops)
          = (TFM_RPC_SUCCESS, ops))"
  by (cases rpc_ops; cases ops)
    (auto simp: tfm_rpc_unregister_ops_def tfm_rpc_register_ops_def rpc_ops_init_def)

theorem tfm_rpc_unregister_ops_result_witness:
  "tfm_rpc_unregister_ops example_ops = rpc_ops_init
   \<and> tfm_rpc_unregister_ops (tfm_rpc_unregister_ops example_ops)
        = tfm_rpc_unregister_ops example_ops
   \<and> tfm_rpc_register_ops (Some other_ops) (tfm_rpc_unregister_ops example_ops)
        = (TFM_RPC_SUCCESS, other_ops)
   \<and> tfm_rpc_register_ops (Some other_ops) example_ops
        = (TFM_RPC_CONFLICT_CALLBACK, example_ops)"
proof -
  have bound: "tfm_rpc_register_ops (Some other_ops) example_ops
      = (TFM_RPC_CONFLICT_CALLBACK, example_ops)"
    by (simp add: tfm_rpc_register_ops_def example_ops_def other_ops_def)
  have present: "handle_req other_ops \<noteq> None \<and> reply other_ops \<noteq> None"
    by (simp add: other_ops_def)
  show ?thesis
    using tfm_rpc_unregister_ops_result [of example_ops other_ops] bound present by blast
qed

section \<open>The second half of call does not depend on caller memory\<close>

lemma with_mem_pair [simp]: "with_mem m (r, s) = (r, s\<lparr>mem := m\<rparr>)"
  by (simp add: with_mem_def)






lemma tfm_psa_call_racing_id:
  "tfm_psa_call_racing env (\<lambda>m. m) hdl in_vec in_len out_vec out_len ns_caller s
     = tfm_psa_call env hdl in_vec in_len out_vec out_len ns_caller s"
  by (simp add: tfm_psa_call_racing_def tfm_psa_call_def split: sum.split prod.split)


section \<open>The second half of call works on the snapshots\<close>














section \<open>What each step adds to the log\<close>

lemma is_send_simps [simp]:
  "\<not> is_send (Memory_check b n ns r)"
  "\<not> is_send (Copy_from_caller p n)"
  "\<not> is_send (Create_msg args m)"
  "is_send (Send_event service msg r)"
  by (simp_all add: is_send_def)

lemma extends_refl [simp]: "extends s s []"
  by (simp add: extends_def)

lemma extends_trans: "extends s s1 es \<Longrightarrow> extends s1 s2 es' \<Longrightarrow> extends s s2 (es @ es')"
  by (simp add: extends_def)

lemma extends_new_events: "extends s s' es \<Longrightarrow> new_events s s' = es"
  by (simp add: extends_def new_events_def)

lemma extends_log_event: "extends s (log_event e s) [e]"
  by (simp add: extends_def log_event_def)

lemma memory_check_extends:
  "memory_check env b n ns s = (r, s1) \<Longrightarrow> extends s s1 [Memory_check b n ns r]"
  by (auto simp: memory_check_def Let_def extends_def log_event_def)

lemma create_msg_extends:
  "create_msg env args s = (msg, s1) \<Longrightarrow> extends s s1 [Create_msg args msg]"
  by (auto simp: create_msg_def extends_def log_event_def split: prod.splits)

lemma send_event_extends:
  "send_event env service msg s = (r, s1) \<Longrightarrow> extends s s1 [Send_event service msg r]"
  by (auto simp: send_event_def extends_def log_event_def split: prod.splits)

lemma check_iovecs_extends:
  "check_iovecs env ns vecs n i s = (res, s') \<Longrightarrow>
     \<exists>es. extends s s' es \<and> filter is_send es = []"
proof (induction env ns vecs n i s arbitrary: res s' rule: check_iovecs.induct)
  case (1 env ns vecs n i s)
  obtain r s1 where mc: "memory_check env (base (vecs ! i)) (len (vecs ! i)) ns s = (r, s1)"
    by (cases "memory_check env (base (vecs ! i)) (len (vecs ! i)) ns s")
  have step: "extends s s1 [Memory_check (base (vecs ! i)) (len (vecs ! i)) ns r]"
    using mc by (rule memory_check_extends)
  show ?case
  proof (cases "int i < uint n \<and> \<not> length vecs \<le> i \<and> r = IPC_SUCCESS env
      \<and> \<not> 2 ^ 31 \<le> int (Suc i)")
    case True
    then have "check_iovecs env ns vecs n (Suc i) s1 = (res, s')"
      using "1.prems" mc by (simp add: check_iovecs.simps [of env ns vecs n i])
    then obtain es where "extends s1 s' es" "filter is_send es = []"
      using "1.IH" [of r s1 res s'] True mc by auto
    then show ?thesis
      using extends_trans [OF step] by fastforce
  next
    case False
    then consider "s' = s" | "s' = s1"
      using "1.prems" mc
      by (auto simp: check_iovecs.simps [of env ns vecs n i] split: if_splits)
    then show ?thesis
    proof cases
      case 1
      then show ?thesis using extends_refl by fastforce
    next
      case 2
      then show ?thesis using step by fastforce
    qed
  qed
qed

lemma call_copy_in_extends:
  "call_copy_in env hdl in_vec in_len out_vec out_len ns s = (res, s') \<Longrightarrow>
     \<exists>es. extends s s' es \<and> filter is_send es = []"
  by (auto simp: call_copy_in_def memory_check_def Let_def extends_def log_event_def
      split: if_splits option.splits)

lemma call_dispatch_send:
  assumes run: "call_dispatch env service hdl invecs in_len outvecs out_len out_vec ns s
      = (res, s')"
  shows "\<exists>es. extends s s' es \<and>
     (filter is_send es = [] \<and> res \<noteq> Inr PSA_SUCCESS
      \<or> (\<exists>msg r. filter is_send es = [Send_event service msg r]
            \<and> res = (if r = IPC_SUCCESS env then Inr PSA_SUCCESS else Inl Panic)))"
proof -
  obtain r1 s1 where c1: "check_iovecs env ns invecs in_len 0 s = (r1, s1)"
    by (cases "check_iovecs env ns invecs in_len 0 s")
  then obtain es1 where e1: "extends s s1 es1" "filter is_send es1 = []"
    using check_iovecs_extends by blast
  show ?thesis
  proof (cases r1)
    case (Inl f)
    then have "res = Inl f" "s' = s1"
      using run c1 by (simp_all add: call_dispatch_def)
    then show ?thesis using e1 by auto
  next
    case (Inr u)
    obtain r2 s2 where c2: "check_iovecs env ns outvecs out_len 0 s1 = (r2, s2)"
      by (cases "check_iovecs env ns outvecs out_len 0 s1")
    then obtain es2 where e2: "extends s1 s2 es2" "filter is_send es2 = []"
      using check_iovecs_extends by blast
    have e12: "extends s s2 (es1 @ es2)" "filter is_send (es1 @ es2) = []"
      using e1 e2 extends_trans by auto
    show ?thesis
    proof (cases r2)
      case (Inl f)
      then have "res = Inl f" "s' = s2"
        using run c1 c2 Inr by (simp_all add: call_dispatch_def)
      then show ?thesis using e12 by auto
    next
      case inr2: (Inr v)
      let ?args = "call_msg_args service hdl ns invecs in_len outvecs out_len out_vec"
      obtain m s3 where c3: "create_msg env ?args s2 = (m, s3)"
        by (cases "create_msg env ?args s2")
      have e3: "extends s s3 (es1 @ es2 @ [Create_msg ?args m])"
        using extends_trans [OF e12(1) create_msg_extends [OF c3]] by simp
      show ?thesis
      proof (cases m)
        case None
        then have "res = Inl Panic" "s' = s3"
          using run c1 c2 c3 Inr inr2 by (simp_all add: call_dispatch_def)
        then show ?thesis using e3 e12 by auto
      next
        case (Some msg)
        obtain r s4 where c4: "send_event env service msg s3 = (r, s4)"
          by (cases "send_event env service msg s3")
        have e4: "extends s s4 ((es1 @ es2 @ [Create_msg ?args m]) @ [Send_event service msg r])"
          using extends_trans [OF e3 send_event_extends [OF c4]] .
        have res: "res = (if r = IPC_SUCCESS env then Inr PSA_SUCCESS else Inl Panic)"
          and last: "s' = s4"
          using run c1 c2 c3 c4 Inr inr2 Some
          by (auto simp: call_dispatch_def split: if_splits)
        let ?es = "(es1 @ es2 @ [Create_msg ?args m]) @ [Send_event service msg r]"
        have "filter is_send ?es = [Send_event service msg r]"
          using e12(2) by simp
        then have "\<exists>msg r. filter is_send ?es = [Send_event service msg r]
            \<and> res = (if r = IPC_SUCCESS env then Inr PSA_SUCCESS else Inl Panic)"
          using res by blast
        moreover have "extends s s' ?es"
          using e4 last by simp
        ultimately show ?thesis by blast
      qed
    qed
  qed
qed

lemma tfm_psa_call_send:
  assumes run: "tfm_psa_call env hdl in_vec in_len out_vec out_len ns s = (res, s')"
    and sent: "Send_event service msg r \<in> set (new_events s s')"
  shows "res = (if r = IPC_SUCCESS env then Inr PSA_SUCCESS else Inl Panic)"
proof -
  obtain c s1 where c1: "call_copy_in env hdl in_vec in_len out_vec out_len ns s = (c, s1)"
    by (cases "call_copy_in env hdl in_vec in_len out_vec out_len ns s")
  then obtain es1 where e1: "extends s s1 es1" "filter is_send es1 = []"
    using call_copy_in_extends by blast
  show ?thesis
  proof (cases c)
    case (Inl f)
    then have "s' = s1" using run c1 by (simp add: tfm_psa_call_def)
    then have "new_events s s' = es1" using e1 extends_new_events by blast
    then have "is_send (Send_event service msg r) \<Longrightarrow> False"
      using sent e1(2) by (metis filter_empty_conv)
    then show ?thesis by simp
  next
    case (Inr t)
    obtain svc invecs outvecs where t: "t = (svc, invecs, outvecs)"
      by (cases t)
    have d: "call_dispatch env svc hdl invecs in_len outvecs out_len out_vec ns s1 = (res, s')"
      using run c1 Inr t by (simp add: tfm_psa_call_def)
    obtain es2 where e2: "extends s1 s' es2"
      and alt: "filter is_send es2 = [] \<and> res \<noteq> Inr PSA_SUCCESS
        \<or> (\<exists>msg' r'. filter is_send es2 = [Send_event svc msg' r']
              \<and> res = (if r' = IPC_SUCCESS env then Inr PSA_SUCCESS else Inl Panic))"
      using call_dispatch_send [OF d] by blast
    have ne: "new_events s s' = es1 @ es2"
      using extends_new_events [OF extends_trans [OF e1(1) e2]] .
    have mem: "Send_event service msg r \<in> set (filter is_send (es1 @ es2))"
      using sent ne by simp
    then have mem2: "Send_event service msg r \<in> set (filter is_send es2)"
      using e1(2) by simp
    from alt show ?thesis
    proof
      assume "filter is_send es2 = [] \<and> res \<noteq> Inr PSA_SUCCESS"
      then show ?thesis using mem2 by simp
    next
      assume "\<exists>msg' r'. filter is_send es2 = [Send_event svc msg' r']
              \<and> res = (if r' = IPC_SUCCESS env then Inr PSA_SUCCESS else Inl Panic)"
      then obtain msg' r' where only: "filter is_send es2 = [Send_event svc msg' r']"
        and res: "res = (if r' = IPC_SUCCESS env then Inr PSA_SUCCESS else Inl Panic)"
        by blast
      have "Send_event service msg r \<in> set [Send_event svc msg' r']"
        using mem2 unfolding only .
      then have "r = r'" by simp
      then show ?thesis using res by simp
    qed
  qed
qed

lemma tfm_psa_connect_send:
  assumes run: "tfm_psa_connect env sid minor ns s = (res, s')"
    and sent: "Send_event service msg r \<in> set (new_events s s')"
  shows "res = Inr PSA_SUCCESS"
  using assms
  by (auto simp: tfm_psa_connect_def create_msg_def send_event_def log_event_def
      new_events_def split: option.splits if_splits prod.splits)

lemma tfm_psa_close_send:
  assumes run: "tfm_psa_close env hdl ns s = (res, s')"
    and sent: "Send_event service msg r \<in> set (new_events s s')"
  shows "res = Inr ()"
  using assms
  by (auto simp: tfm_psa_close_def create_msg_def send_event_def log_event_def
      new_events_def split: option.splits if_splits prod.splits)

text \<open>
  C10. Whenever \<open>tfm_psa_connect\<close> or \<open>tfm_psa_close\<close> has handed a message to the
  event path, it returns normally (\<open>PSA_SUCCESS\<close>, or nothing for close) whatever
  status \<open>r\<close> the hand-off returned. \<open>tfm_psa_call\<close> returns \<open>PSA_SUCCESS\<close> only for the
  status \<open>IPC_SUCCESS\<close> and panics for every other.
\<close>

theorem handoff_status_use:
  "(tfm_psa_connect env sid minor ns_caller s = (res, s')
      \<and> Send_event service msg r \<in> set (new_events s s') \<longrightarrow> res = Inr PSA_SUCCESS)
   \<and> (tfm_psa_close env hdl ns_caller s = (u, s')
      \<and> Send_event service msg r \<in> set (new_events s s') \<longrightarrow> u = Inr ())
   \<and> (tfm_psa_call env hdl in_vec in_len out_vec out_len ns_caller s = (res, s')
      \<and> Send_event service msg r \<in> set (new_events s s') \<longrightarrow>
        res = (if r = IPC_SUCCESS env then Inr PSA_SUCCESS else Inl Panic))"
  by (intro conjI impI; elim conjE)
    (erule (1) tfm_psa_connect_send, erule (1) tfm_psa_close_send, erule (1) tfm_psa_call_send)

theorem handoff_status_use_witness:
  "IPC_SUCCESS (example_env 1) \<noteq> (1 :: int32_t)
   \<and> Send_event service7 0x30000001 1
        \<in> set (trace (snd (tfm_psa_connect (example_env 1) 7 2 1 (example_state 1))))
   \<and> fst (tfm_psa_connect (example_env 1) 7 2 1 (example_state 1)) = Inr PSA_SUCCESS
   \<and> Send_event service7 0x30000001 1
        \<in> set (trace (snd (tfm_psa_close (example_env 1) 1 1 (example_state 1))))
   \<and> fst (tfm_psa_close (example_env 1) 1 1 (example_state 1)) = Inr ()
   \<and> Send_event service7 0x30000001 1
        \<in> set (trace (snd (tfm_psa_call (example_env 1) 1 0x20000100 1 0 0 1 (example_state 1))))
   \<and> fst (tfm_psa_call (example_env 1) 1 0x20000100 1 0 0 1 (example_state 1)) = Inl Panic"
proof -
  let ?s = "example_state 1"
  let ?e = "Send_event service7 0x30000001 1"
  let ?connect = "tfm_psa_connect (example_env 1) 7 2 1 ?s"
  let ?close = "tfm_psa_close (example_env 1) 1 1 ?s"
  let ?call = "tfm_psa_call (example_env 1) 1 0x20000100 1 0 0 1 ?s"
  have fresh: "new_events (example_state free) s' = trace s'" for free and s' :: "nat state"
    by (simp add: new_events_def example_state_def)
  have status: "IPC_SUCCESS (example_env 1) \<noteq> (1 :: int32_t)"
    by (simp add: example_env_def)
  have sent: "?e \<in> set (trace (snd ?connect))" "?e \<in> set (trace (snd ?close))"
    "?e \<in> set (trace (snd ?call))"
    by code_simp+
  have "fst ?connect = Inr PSA_SUCCESS"
    using handoff_status_use
      [where env = "example_env 1" and sid = 7 and minor = 2 and ns_caller = 1 and s = ?s
        and res = "fst ?connect" and s' = "snd ?connect" and service = service7
        and msg = "0x30000001" and r = 1, THEN conjunct1]
      sent(1)
    by (simp add: fresh)
  moreover have "fst ?close = Inr ()"
    using handoff_status_use
      [where env = "example_env 1" and hdl = 1 and ns_caller = 1 and s = ?s
        and u = "fst ?close" and s' = "snd ?close" and service = service7
        and msg = "0x30000001" and r = 1, THEN conjunct2, THEN conjunct1]
      sent(2)
    by (simp add: fresh)
  moreover have "fst ?call = Inl Panic"
    using handoff_status_use
      [where env = "example_env 1" and hdl = 1 and in_vec = "0x20000100" and in_len = 1
        and out_vec = 0 and out_len = 0 and ns_caller = 1 and s = ?s
        and res = "fst ?call" and s' = "snd ?call" and service = service7
        and msg = "0x30000001" and r = 1, THEN conjunct2, THEN conjunct2]
      sent(3) status
    by (simp add: fresh)
  ultimately show ?thesis
    using sent status by blast
qed

section \<open>The count check of call\<close>

lemma tfm_psa_call_count_check:
  "PSA_MAX_IOVEC env < in_len + out_len \<Longrightarrow>
     tfm_psa_call env hdl in_vec in_len out_vec out_len ns_caller s = (Inl Panic, s)"
  by (simp add: tfm_psa_call_def call_copy_in_def)

text \<open>
  Where the sum of the two counts fits into a \<open>size_t\<close>, a sum beyond \<open>PSA_MAX_IOVEC\<close>
  is a panic before anything else happens.
\<close>

lemma tfm_psa_call_count_no_wrap:
  assumes "uint in_len + uint out_len < 2 ^ 32"
    and "uint (PSA_MAX_IOVEC env) < uint in_len + uint out_len"
  shows "tfm_psa_call env hdl in_vec in_len out_vec out_len ns_caller s = (Inl Panic, s)"
proof -
  have "uint (in_len + out_len) = uint in_len + uint out_len"
    using assms(1) by (simp add: uint_word_ariths take_bit_int_eq_self)
  then have "PSA_MAX_IOVEC env < in_len + out_len"
    using assms(2) by (simp add: word_less_def)
  then show ?thesis by (rule tfm_psa_call_count_check)
qed

text \<open>
  Where the sum does not fit, the comparison sees the wrapped sum. With the counts
  0xFFFFFFFF and 1 the wrapped sum is 0, the count check passes on every platform, and a
  live handle takes the call on to the range check of the input-descriptor array.
\<close>

lemma tfm_psa_call_wrapped_count_passes:
  assumes "tfm_spm_get_service_by_handle env (spm s) hdl = Some service"
  shows "uint (PSA_MAX_IOVEC env) < uint (0xFFFFFFFF :: size_t) + uint (1 :: size_t)"
    and "\<exists>r es. new_events s (snd (tfm_psa_call env hdl in_vec 0xFFFFFFFF out_vec 1 ns_caller s))
           = Memory_check in_vec 0xFFFFFFF8 ns_caller r # es"
proof -
  have "uint (PSA_MAX_IOVEC env) < 2 ^ 32"
    using uint_bounded [of "PSA_MAX_IOVEC env"] by simp
  then show "uint (PSA_MAX_IOVEC env) < uint (0xFFFFFFFF :: size_t) + uint (1 :: size_t)"
    by simp
next
  obtain c s1 where c1: "call_copy_in env hdl in_vec 0xFFFFFFFF out_vec 1 ns_caller s = (c, s1)"
    by (cases "call_copy_in env hdl in_vec 0xFFFFFFFF out_vec 1 ns_caller s")
  let ?r = "tfm_memory_check env (spm s) in_vec 0xFFFFFFF8 ns_caller"
  have bytes: "(0xFFFFFFFF :: size_t) * sizeof_iovec = 0xFFFFFFF8"
    by (simp add: sizeof_iovec_def)
  have sum: "(4294967296 :: size_t) = 0"
    by simp
  have "\<exists>es. extends s s1 (Memory_check in_vec 0xFFFFFFF8 ns_caller ?r # es)"
    using c1 assms
    by (auto simp: call_copy_in_def bytes sum memory_check_def Let_def extends_def log_event_def
        split: if_splits option.splits)
  then obtain es1 where e1: "extends s s1 (Memory_check in_vec 0xFFFFFFF8 ns_caller ?r # es1)"
    by blast
  let ?run = "tfm_psa_call env hdl in_vec 0xFFFFFFFF out_vec 1 ns_caller s"
  have "\<exists>es2. extends s1 (snd ?run) es2"
  proof (cases c)
    case (Inl f)
    then have "snd ?run = s1" using c1 by (simp add: tfm_psa_call_def)
    then show ?thesis using extends_refl by metis
  next
    case (Inr t)
    obtain svc invecs outvecs where t: "t = (svc, invecs, outvecs)"
      by (cases t)
    obtain res s' where d: "call_dispatch env svc hdl invecs 0xFFFFFFFF outvecs 1 out_vec
        ns_caller s1 = (res, s')"
      by (cases "call_dispatch env svc hdl invecs 0xFFFFFFFF outvecs 1 out_vec ns_caller s1")
    then have "snd ?run = s'" using c1 Inr t by (simp add: tfm_psa_call_def)
    then show ?thesis using call_dispatch_send [OF d] by blast
  qed
  then obtain es2 where "extends s1 (snd ?run) es2" by blast
  then have "new_events s (snd ?run) = Memory_check in_vec 0xFFFFFFF8 ns_caller ?r # es1 @ es2"
    using extends_new_events [OF extends_trans [OF e1]] by simp
  then show "\<exists>r es. new_events s (snd ?run) = Memory_check in_vec 0xFFFFFFF8 ns_caller r # es"
    by blast
qed

text \<open>
  C2. The sum of the two counts is compared after wrapping to 32 bits. With the counts
  0x80000000 and 0x80000000 the sum is 2^32, far beyond \<open>PSA_MAX_IOVEC\<close> = 4 of the
  example platform, yet the call does not panic at the count check: it has both
  descriptor arrays range-checked (over 0 bytes, the byte counts wrap too), copies
  nothing, checks the four zeroed local descriptors and then reads \<open>invecs[4]\<close>, beyond
  the local array.
\<close>

theorem tfm_psa_call_count_wraps:
  "uint (PSA_MAX_IOVEC (example_env 0)) < uint (0x80000000 :: size_t) + uint (0x80000000 :: size_t)
   \<and> fst (tfm_psa_call (example_env 0) 1 0x20000100 0x80000000 0x20000100 0x80000000 1
            (example_state 1)) = Inl Undefined_behaviour
   \<and> trace (snd (tfm_psa_call (example_env 0) 1 0x20000100 0x80000000 0x20000100 0x80000000 1
            (example_state 1)))
      = [Memory_check 0x20000100 0 1 0, Memory_check 0x20000100 0 1 0,
         Copy_from_caller 0x20000100 0, Copy_from_caller 0x20000100 0,
         Memory_check 0 0 1 0, Memory_check 0 0 1 0, Memory_check 0 0 1 0,
         Memory_check 0 0 1 0]"
  by (intro conjI; code_simp)

section \<open>The parameter-block wrappers\<close>

text \<open>
  Given a parameter block, the wrappers of the version query, of connect and of close
  call the direct entry point with the fields of the block and the trust flag as 1 or 0.
\<close>

lemma tfm_rpc_wrappers_forward:
  "tfm_rpc_psa_version env (Some p) ns s
     = tfm_psa_version env (params_sid p) (bool_to_int32 ns) s"
  "tfm_rpc_psa_connect env (Some p) ns s
     = tfm_psa_connect env (params_sid p) (params_version p) (bool_to_int32 ns) s"
  "tfm_rpc_psa_close env (Some p) ns s
     = tfm_psa_close env (params_handle p) (bool_to_int32 ns) s"
  by (simp_all add: tfm_rpc_psa_version_def tfm_rpc_psa_connect_def tfm_rpc_psa_close_def)

text \<open>
  The call wrapper passes eight arguments, the message type in second place and the
  privilege mode last, to an entry point defined with six parameters. On every platform
  and for every parameter block the call is not a call of that entry point.
\<close>

lemma tfm_rpc_psa_call_ill_formed:
  "tfm_rpc_psa_call env (Some p) ns s = (Inl Undefined_behaviour, s)"
  by (simp add: tfm_rpc_psa_call_def invoke_tfm_psa_call_def)

text \<open>
  C6. The call wrapper does not give the result of the direct entry point on the fields
  of the block. For the example block on the example platform the direct call succeeds
  and hands a message to the event path; the wrapper's call has eight arguments for six
  parameters and no defined result.
\<close>

theorem tfm_rpc_psa_call_diverges:
  "fst (tfm_psa_call (example_env 0) (params_handle example_params)
          (params_in_vec example_params) (params_in_len example_params)
          (params_out_vec example_params) (params_out_len example_params)
          (bool_to_int32 True) (example_state 1)) = Inr PSA_SUCCESS
   \<and> fst (tfm_rpc_psa_call (example_env 0) (Some example_params) True (example_state 1))
       = Inl Undefined_behaviour
   \<and> trace (snd (tfm_rpc_psa_call (example_env 0) (Some example_params) True (example_state 1)))
       = []"
  by (intro conjI; code_simp)

end
